theory Spec2Isabelle
  imports Complex_Main "HOL-Library.Word"
begin

unbundle bit_operations_syntax

section \<open>Machine types\<close>

text \<open>
  \<^verbatim>\<open>uint\<close> and \<^verbatim>\<open>int\<close> are 32 bits wide and \<^verbatim>\<open>uchar\<close> is 8 bits wide. Both
  \<^verbatim>\<open>int\<close> and \<^verbatim>\<open>uint\<close> are words of 32 bits: \<open>unat\<close> reads a \<^verbatim>\<open>uint\<close>, \<open>sint\<close>
  reads an \<^verbatim>\<open>int\<close>, and the conversions between the two keep the bits, as they do on
  every two's complement target. Arithmetic that mixes \<^verbatim>\<open>int\<close> and \<^verbatim>\<open>uint\<close> is done
  in \<^verbatim>\<open>uint\<close> and wraps modulo \<open>2 ^ 32\<close>.

  \<^verbatim>\<open>flag_t\<close> comes from \<^verbatim>\<open>common_types.h\<close>, which is not among the sources; it is taken
  to be as wide as the \<^verbatim>\<open>uint\<close> argument of \<^verbatim>\<open>swapDeviceBuffers\<close>, which receives
  such flags.

  \<^verbatim>\<open>float\<close> values are modelled by the real numbers they denote: subtraction, division
  and \<^verbatim>\<open>floor\<close> are exact, without rounding. What is proved about positions is
  therefore a statement about the code only where single precision is exact, as it is in
  the scenario with a unit cell size and positions that are multiples of one half.
\<close>

type_synonym uint = "32 word"
type_synonym int32 = "32 word"
type_synonym uchar = "8 word"
type_synonym flag_t = "32 word"

datatype float3 = make_float3 (fx: real) (fy: real) (fz: real)
datatype float4 = make_float4 (px: real) (py: real) (pz: real) (pw: real)
datatype uint3 = make_uint3 (ux: uint) (uy: uint) (uz: uint)
datatype int3 = make_int3 (ix: int32) (iy: int32) (iz: int32)

text \<open>
  Undefined behaviour of the C++ code is a value of the model, so that a claim that the
  code does not fault can be stated: reading through a null or dangling pointer, reading
  an array out of its bounds, dividing an integer by zero, converting a \<^verbatim>\<open>float\<close> that
  no \<^verbatim>\<open>int\<close> holds, deleting an object that is not alive.
\<close>

datatype fault =
    NullPointer
  | DanglingPointer
  | OutOfBounds
  | DivisionByZero
  | FloatToInt
  | InvalidDelete

section \<open>GlobalData.h\<close>

subsection \<open>Flags\<close>

definition NO_FLAGS :: flag_t where
  "NO_FLAGS = 0"

definition INITIALIZATION_STEP :: flag_t where
  "INITIALIZATION_STEP = 1"

definition INTEGRATOR_STEP_1 :: flag_t where
  "INTEGRATOR_STEP_1 = push_bit 1 INITIALIZATION_STEP"

definition INTEGRATOR_STEP_2 :: flag_t where
  "INTEGRATOR_STEP_2 = push_bit 1 INTEGRATOR_STEP_1"

definition LAST_DEFINED_STEP :: flag_t where
  "LAST_DEFINED_STEP = INTEGRATOR_STEP_2"

definition FIRST_DEFINED_BUFFER :: flag_t where
  "FIRST_DEFINED_BUFFER = push_bit 1 LAST_DEFINED_STEP"

text \<open>
  The keys of the buffers are defined in \<^verbatim>\<open>define_buffers.h\<close>, which is not among the
  sources. The functions that use them take them as a parameter: one flag for each of the
  double-buffered quantities that \<^verbatim>\<open>BUFFERS_ALL_DBL\<close> lists.
\<close>

record buffer_keys =
  BUFFER_POS :: flag_t
  BUFFER_VEL :: flag_t
  BUFFER_INFO :: flag_t
  BUFFER_BOUNDELEMENTS :: flag_t
  BUFFER_GRADGAMMA :: flag_t
  BUFFER_VERTICES :: flag_t
  BUFFER_PRESSURE :: flag_t
  BUFFER_TKE :: flag_t
  BUFFER_EPSILON :: flag_t
  BUFFER_TURBVISC :: flag_t
  BUFFER_STRAIN_RATE :: flag_t

definition BUFFERS_POS_VEL_INFO :: "buffer_keys \<Rightarrow> flag_t" where
  "BUFFERS_POS_VEL_INFO K = (BUFFER_POS K OR BUFFER_VEL K OR BUFFER_INFO K)"

definition BUFFERS_ALL_DBL :: "buffer_keys \<Rightarrow> flag_t" where
  "BUFFERS_ALL_DBL K =
     (BUFFER_POS K OR BUFFER_VEL K OR BUFFER_INFO K OR
      BUFFER_BOUNDELEMENTS K OR BUFFER_GRADGAMMA K OR BUFFER_VERTICES K OR
      BUFFER_PRESSURE K OR BUFFER_TKE K OR BUFFER_EPSILON K OR
      BUFFER_TURBVISC K OR BUFFER_STRAIN_RATE K)"

text \<open>
  One assignment of keys, used where a concrete run is evaluated: every key is one bit,
  the bits are handed out upwards from \<^verbatim>\<open>FIRST_DEFINED_BUFFER\<close> in the order of
  \<^verbatim>\<open>BUFFERS_ALL_DBL\<close>, as the comments of \<^verbatim>\<open>GlobalData.h\<close> describe the buffer flags.
\<close>

definition successive_keys :: buffer_keys where
  "successive_keys =
     \<lparr> BUFFER_POS = FIRST_DEFINED_BUFFER,
       BUFFER_VEL = push_bit 1 FIRST_DEFINED_BUFFER,
       BUFFER_INFO = push_bit 2 FIRST_DEFINED_BUFFER,
       BUFFER_BOUNDELEMENTS = push_bit 3 FIRST_DEFINED_BUFFER,
       BUFFER_GRADGAMMA = push_bit 4 FIRST_DEFINED_BUFFER,
       BUFFER_VERTICES = push_bit 5 FIRST_DEFINED_BUFFER,
       BUFFER_PRESSURE = push_bit 6 FIRST_DEFINED_BUFFER,
       BUFFER_TKE = push_bit 7 FIRST_DEFINED_BUFFER,
       BUFFER_EPSILON = push_bit 8 FIRST_DEFINED_BUFFER,
       BUFFER_TURBVISC = push_bit 9 FIRST_DEFINED_BUFFER,
       BUFFER_STRAIN_RATE = push_bit 10 FIRST_DEFINED_BUFFER \<rparr>"

subsection \<open>The structure\<close>

text \<open>
  The members of \<^verbatim>\<open>GlobalData\<close> that the functions below read or write, and the scalar
  members that the constructor sets. The device map is a pointer to an array of
  \<^verbatim>\<open>uchar\<close>: \<open>None\<close> is the null pointer, \<open>Some m\<close> an array holding the elements of
  \<open>m\<close>. The pointers to collaborators, the other host arrays, the rigid body tables, the
  clock and the command are left out.
\<close>

record GlobalData =
  devices :: uint
  mpi_nodes :: uint
  mpi_rank :: int32
  totDevices :: uint
  totParticles :: uint
  worldSize :: float3
  worldOrigin :: float3
  cellSize :: float3
  gridSize :: uint3
  nGridCells :: uint
  s_hDeviceMap :: "uchar list option"
  currentPosRead :: uint
  currentPosWrite :: uint
  currentVelRead :: uint
  currentVelWrite :: uint
  currentInfoRead :: uint
  currentInfoWrite :: uint
  currentBoundElementRead :: uint
  currentBoundElementWrite :: uint
  currentGradGammaRead :: uint
  currentGradGammaWrite :: uint
  currentVerticesRead :: uint
  currentVerticesWrite :: uint
  currentPressureRead :: uint
  currentPressureWrite :: uint
  currentTKERead :: uint
  currentTKEWrite :: uint
  currentEpsRead :: uint
  currentEpsWrite :: uint
  currentTurbViscRead :: uint
  currentTurbViscWrite :: uint
  currentStrainRateRead :: uint
  currentStrainRateWrite :: uint
  mbDataSize :: uint
  numPlanes :: uint
  keep_going :: bool
  quit_request :: bool
  iterations :: "64 word"
  commandFlags :: flag_t
  only_internal :: bool
  nosave :: bool

text \<open>
  The constructor. Its argument is the storage the object is built in; a member that the
  initialiser list does not name keeps what the storage holds, since the body of the
  constructor only fills \<^verbatim>\<open>dts\<close> and the rigid body tables. The generation indices, the
  grid and the world are among the members it does not name.
\<close>

definition GlobalData_ctor :: "GlobalData \<Rightarrow> GlobalData" where
  "GlobalData_ctor storage =
     storage \<lparr> devices := 0,
               mpi_nodes := 0,
               mpi_rank := - 1,
               totDevices := 0,
               totParticles := 0,
               nGridCells := 0,
               s_hDeviceMap := None,
               mbDataSize := 0,
               numPlanes := 0,
               keep_going := True,
               quit_request := False,
               iterations := 0,
               commandFlags := NO_FLAGS,
               only_internal := False,
               nosave := False \<rparr>"

text \<open>
  Storage filled with zeros: what an object of static storage duration is built in.
\<close>

definition zero_storage :: GlobalData where
  "zero_storage =
     \<lparr> devices = 0, mpi_nodes = 0, mpi_rank = 0, totDevices = 0, totParticles = 0,
       worldSize = make_float3 0 0 0, worldOrigin = make_float3 0 0 0,
       cellSize = make_float3 0 0 0, gridSize = make_uint3 0 0 0, nGridCells = 0,
       s_hDeviceMap = None,
       currentPosRead = 0, currentPosWrite = 0,
       currentVelRead = 0, currentVelWrite = 0,
       currentInfoRead = 0, currentInfoWrite = 0,
       currentBoundElementRead = 0, currentBoundElementWrite = 0,
       currentGradGammaRead = 0, currentGradGammaWrite = 0,
       currentVerticesRead = 0, currentVerticesWrite = 0,
       currentPressureRead = 0, currentPressureWrite = 0,
       currentTKERead = 0, currentTKEWrite = 0,
       currentEpsRead = 0, currentEpsWrite = 0,
       currentTurbViscRead = 0, currentTurbViscWrite = 0,
       currentStrainRateRead = 0, currentStrainRateWrite = 0,
       mbDataSize = 0, numPlanes = 0, keep_going = False, quit_request = False,
       iterations = 0, commandFlags = 0, only_internal = False, nosave = False \<rparr>"

subsection \<open>Swapping the double buffers\<close>

text \<open>
  \<^verbatim>\<open>swapDeviceBuffers\<close>: three tests in a row, each followed by a \<^verbatim>\<open>std::swap\<close> of
  one pair of indices. A test succeeds when the bitwise conjunction is not zero.
\<close>

definition swapDeviceBuffers :: "buffer_keys \<Rightarrow> GlobalData \<Rightarrow> uint \<Rightarrow> GlobalData" where
  "swapDeviceBuffers K gd buffers =
     (let gd1 = (if buffers AND BUFFER_POS K \<noteq> 0
                 then gd \<lparr> currentPosRead := currentPosWrite gd,
                           currentPosWrite := currentPosRead gd \<rparr>
                 else gd);
          gd2 = (if buffers AND BUFFER_VEL K \<noteq> 0
                 then gd1 \<lparr> currentVelRead := currentVelWrite gd1,
                            currentVelWrite := currentVelRead gd1 \<rparr>
                 else gd1);
          gd3 = (if buffers AND BUFFER_INFO K \<noteq> 0
                 then gd2 \<lparr> currentInfoRead := currentInfoWrite gd2,
                            currentInfoWrite := currentInfoRead gd2 \<rparr>
                 else gd2)
      in gd3)"

text \<open>A run of calls, one for each set of flags of the list, in order.\<close>

definition swap_sequence :: "buffer_keys \<Rightarrow> GlobalData \<Rightarrow> uint list \<Rightarrow> GlobalData" where
  "swap_sequence K gd flags = foldl (swapDeviceBuffers K) gd flags"

text \<open>
  The generation indices as a list of pairs (read, write), one pair for each
  double-buffered quantity, in the order of \<^verbatim>\<open>BUFFERS_ALL_DBL\<close>.
\<close>

definition generations :: "GlobalData \<Rightarrow> (uint \<times> uint) list" where
  "generations gd =
     [(currentPosRead gd, currentPosWrite gd),
      (currentVelRead gd, currentVelWrite gd),
      (currentInfoRead gd, currentInfoWrite gd),
      (currentBoundElementRead gd, currentBoundElementWrite gd),
      (currentGradGammaRead gd, currentGradGammaWrite gd),
      (currentVerticesRead gd, currentVerticesWrite gd),
      (currentPressureRead gd, currentPressureWrite gd),
      (currentTKERead gd, currentTKEWrite gd),
      (currentEpsRead gd, currentEpsWrite gd),
      (currentTurbViscRead gd, currentTurbViscWrite gd),
      (currentStrainRateRead gd, currentStrainRateWrite gd)]"

definition generation_ok :: "uint \<times> uint \<Rightarrow> bool" where
  "generation_ok p = (fst p \<noteq> snd p \<and> (fst p = 0 \<or> fst p = 1) \<and> (snd p = 0 \<or> snd p = 1))"

definition generations_ok :: "GlobalData \<Rightarrow> bool" where
  "generations_ok gd = list_all generation_ok (generations gd)"

text \<open>
  The state in which the indices have been set to read 0 and write 1, the rest being as
  the constructor leaves it.
\<close>

definition indices_set :: GlobalData where
  "indices_set =
     (GlobalData_ctor zero_storage)
       \<lparr> currentPosWrite := 1, currentVelWrite := 1, currentInfoWrite := 1,
         currentBoundElementWrite := 1, currentGradGammaWrite := 1,
         currentVerticesWrite := 1, currentPressureWrite := 1, currentTKEWrite := 1,
         currentEpsWrite := 1, currentTurbViscWrite := 1, currentStrainRateWrite := 1 \<rparr>"

subsection \<open>The grid\<close>

text \<open>
  \<^verbatim>\<open>min\<close> and \<^verbatim>\<open>max\<close> are the overloads of the CUDA headers. \<^verbatim>\<open>max(0, gridPos.x)\<close>
  compares two \<^verbatim>\<open>int\<close>. \<^verbatim>\<open>min(max(0, gridPos.x), gridSize.x-1)\<close> has an \<^verbatim>\<open>int\<close> and
  a \<^verbatim>\<open>uint\<close>: the \<^verbatim>\<open>int\<close> is converted and the two are compared as \<^verbatim>\<open>uint\<close>.
  \<^verbatim>\<open>gridSize.x-1\<close> is computed in \<^verbatim>\<open>uint\<close> and is \<open>2 ^ 32 - 1\<close> for an empty axis.
\<close>

definition max_int :: "int32 \<Rightarrow> int32 \<Rightarrow> int32" where
  "max_int a b = (if sint a < sint b then b else a)"

definition min_uint :: "uint \<Rightarrow> uint \<Rightarrow> uint" where
  "min_uint a b = (if unat b < unat a then b else a)"

text \<open>
  The conversion of the result of \<^verbatim>\<open>floor\<close> to \<^verbatim>\<open>int\<close>: undefined when the value is
  beyond the range of \<^verbatim>\<open>int\<close>.
\<close>

definition float_to_int :: "real \<Rightarrow> fault + int32" where
  "float_to_int r =
     (if - (2 ^ 31) \<le> \<lfloor>r\<rfloor> \<and> \<lfloor>r\<rfloor> < 2 ^ 31 then Inr (word_of_int \<lfloor>r\<rfloor>) else Inl FloatToInt)"

text \<open>
  One axis of \<^verbatim>\<open>calcGridPosHost\<close>: \<^verbatim>\<open>floor((p - origin) / cell)\<close>. With a cell size of
  zero the quotient is an infinity or not a number, which no \<^verbatim>\<open>int\<close> holds.
\<close>

definition grid_axis :: "real \<Rightarrow> real \<Rightarrow> real \<Rightarrow> fault + int32" where
  "grid_axis p origin cell =
     (if cell = 0 then Inl FloatToInt else float_to_int ((p - origin) / cell))"

text \<open>
  The three assignments to the members of \<^verbatim>\<open>gridPos\<close> one after the other: the first
  conversion that faults ends the call.
\<close>

definition cell_of_axes :: "fault + int32 \<Rightarrow> fault + int32 \<Rightarrow> fault + int32 \<Rightarrow> fault + int3" where
  "cell_of_axes ax ay az =
     (case ax of
        Inl f \<Rightarrow> Inl f
      | Inr gx \<Rightarrow>
          (case ay of
             Inl f \<Rightarrow> Inl f
           | Inr gy \<Rightarrow>
               (case az of
                  Inl f \<Rightarrow> Inl f
                | Inr gz \<Rightarrow> Inr (make_int3 gx gy gz))))"

text \<open>\<^verbatim>\<open>calcGridPosHost(float3 pos)\<close>\<close>

definition calcGridPosHost :: "GlobalData \<Rightarrow> float3 \<Rightarrow> fault + int3" where
  "calcGridPosHost gd pos =
     cell_of_axes
       (grid_axis (fx pos) (fx (worldOrigin gd)) (fx (cellSize gd)))
       (grid_axis (fy pos) (fy (worldOrigin gd)) (fy (cellSize gd)))
       (grid_axis (fz pos) (fz (worldOrigin gd)) (fz (cellSize gd)))"

text \<open>\<^verbatim>\<open>calcGridPosHost(float px, float py, float pz)\<close>\<close>

definition calcGridPosHost_xyz :: "GlobalData \<Rightarrow> real \<Rightarrow> real \<Rightarrow> real \<Rightarrow> fault + int3" where
  "calcGridPosHost_xyz gd x y z =
     cell_of_axes
       (grid_axis x (fx (worldOrigin gd)) (fx (cellSize gd)))
       (grid_axis y (fy (worldOrigin gd)) (fy (cellSize gd)))
       (grid_axis z (fz (worldOrigin gd)) (fz (cellSize gd)))"

text \<open>
  \<^verbatim>\<open>calcGridHashHost(int3 gridPos)\<close>: each axis is trimmed and stored back into the
  \<^verbatim>\<open>int\<close> member; the products and sums with members of \<^verbatim>\<open>gridSize\<close> are \<^verbatim>\<open>uint\<close>
  arithmetic.
\<close>

definition calcGridHashHost :: "GlobalData \<Rightarrow> int3 \<Rightarrow> uint" where
  "calcGridHashHost gd gridPos =
     (let x = min_uint (max_int 0 (ix gridPos)) (ux (gridSize gd) - 1);
          y = min_uint (max_int 0 (iy gridPos)) (uy (gridSize gd) - 1);
          z = min_uint (max_int 0 (iz gridPos)) (uz (gridSize gd) - 1)
      in ((z * uy (gridSize gd)) * ux (gridSize gd)) + (y * ux (gridSize gd)) + x)"

text \<open>\<^verbatim>\<open>calcGridHashHost(int cellX, int cellY, int cellZ)\<close>\<close>

definition calcGridHashHost_xyz :: "GlobalData \<Rightarrow> int32 \<Rightarrow> int32 \<Rightarrow> int32 \<Rightarrow> uint" where
  "calcGridHashHost_xyz gd cellX cellY cellZ =
     (let trimmedX = min_uint (max_int 0 cellX) (ux (gridSize gd) - 1);
          trimmedY = min_uint (max_int 0 cellY) (uy (gridSize gd) - 1);
          trimmedZ = min_uint (max_int 0 cellZ) (uz (gridSize gd) - 1)
      in ((trimmedZ * uy (gridSize gd)) * ux (gridSize gd)) + (trimmedY * ux (gridSize gd))
           + trimmedX)"

text \<open>
  \<^verbatim>\<open>calcGridPosFromHash\<close>. The first division is by \<^verbatim>\<open>gridSize.x*gridSize.y\<close>, the
  second by \<^verbatim>\<open>gridSize.x\<close>; an integer division by zero is a fault.
\<close>

definition calcGridPosFromHash :: "GlobalData \<Rightarrow> uint \<Rightarrow> fault + uint3" where
  "calcGridPosFromHash gd particleHash =
     (if ux (gridSize gd) * uy (gridSize gd) = 0 then Inl DivisionByZero
      else let z = particleHash div (ux (gridSize gd) * uy (gridSize gd))
      in if ux (gridSize gd) = 0 then Inl DivisionByZero
      else let y = (particleHash - z * ux (gridSize gd) * uy (gridSize gd)) div ux (gridSize gd);
               x = particleHash - y * ux (gridSize gd) - z * ux (gridSize gd) * uy (gridSize gd)
      in Inr (make_uint3 x y z))"

text \<open>
  \<^verbatim>\<open>reverseGridHashHost\<close>. The quotients are stored in \<^verbatim>\<open>int\<close> variables and converted
  back to \<^verbatim>\<open>uint\<close> by the products with members of \<^verbatim>\<open>gridSize\<close>.
\<close>

definition reverseGridHashHost :: "GlobalData \<Rightarrow> uint \<Rightarrow> fault + int3" where
  "reverseGridHashHost gd cell_lin_idx =
     (if uy (gridSize gd) * ux (gridSize gd) = 0 then Inl DivisionByZero
      else let cz = cell_lin_idx div (uy (gridSize gd) * ux (gridSize gd))
      in if ux (gridSize gd) = 0 then Inl DivisionByZero
      else let cy = (cell_lin_idx - (cz * uy (gridSize gd) * ux (gridSize gd))) div ux (gridSize gd);
               cx = cell_lin_idx - (cz * uy (gridSize gd) * ux (gridSize gd)) - (cy * ux (gridSize gd))
      in Inr (make_int3 cx cy cz))"

text \<open>Reading an element of an array through a pointer.\<close>

definition read_array :: "'a list option \<Rightarrow> uint \<Rightarrow> fault + 'a" where
  "read_array a i =
     (case a of
        None \<Rightarrow> Inl NullPointer
      | Some m \<Rightarrow> if unat i < length m then Inr (m ! unat i) else Inl OutOfBounds)"

text \<open>
  \<^verbatim>\<open>calcGlobalDeviceIndex\<close>. It returns a value and changes no member; the device map
  is read only when the early return is not taken.
\<close>

definition calcGlobalDeviceIndex :: "GlobalData \<Rightarrow> float4 \<Rightarrow> fault + uchar" where
  "calcGlobalDeviceIndex gd pos =
     (if devices gd = 1 \<and> mpi_nodes gd = 1 then Inr 0
      else case calcGridPosHost_xyz gd (px pos) (py pos) (pz pos) of
             Inl f \<Rightarrow> Inl f
           | Inr cellCoords \<Rightarrow>
               (let linearizedCellIdx = calcGridHashHost gd cellCoords
                in read_array (s_hDeviceMap gd) linearizedCellIdx))"

text \<open>
  The number of cells of the grid as a natural number, and the grids whose
  \<^verbatim>\<open>nGridCells\<close> holds it. The member is a \<^verbatim>\<open>uint\<close>, so such a grid has fewer than
  \<open>2 ^ 32\<close> cells.
\<close>

definition cell_count :: "GlobalData \<Rightarrow> nat" where
  "cell_count gd = unat (ux (gridSize gd)) * unat (uy (gridSize gd)) * unat (uz (gridSize gd))"

definition grid_fits :: "GlobalData \<Rightarrow> bool" where
  "grid_fits gd = (unat (nGridCells gd) = cell_count gd)"

text \<open>A cell that lies in the grid: every coordinate is at least 0 and below the size.\<close>

definition in_grid :: "GlobalData \<Rightarrow> int3 \<Rightarrow> bool" where
  "in_grid gd c =
     (0 \<le> sint (ix c) \<and> sint (ix c) < uint (ux (gridSize gd)) \<and>
      0 \<le> sint (iy c) \<and> sint (iy c) < uint (uy (gridSize gd)) \<and>
      0 \<le> sint (iz c) \<and> sint (iz c) < uint (uz (gridSize gd)))"

text \<open>
  One coordinate trimmed into the axis, on the integers: what the clamp of
  \<^verbatim>\<open>calcGridHashHost\<close> is meant to give for an axis of \<open>n\<close> cells.
\<close>

definition clamp_axis :: "int \<Rightarrow> int \<Rightarrow> int" where
  "clamp_axis v n = (if v < 0 then 0 else if n - 1 < v then n - 1 else v)"

text \<open>
  A grid of more than \<open>2 ^ 32\<close> cells, with \<^verbatim>\<open>nGridCells\<close> computed in \<^verbatim>\<open>uint\<close>,
  and a column of more than \<open>2 ^ 31\<close> cells.
\<close>

definition wide_grid :: GlobalData where
  "wide_grid = zero_storage \<lparr> gridSize := make_uint3 65536 32768 3,
                              nGridCells := 65536 * 32768 * 3 \<rparr>"

definition tall_grid :: GlobalData where
  "tall_grid = zero_storage \<lparr> gridSize := make_uint3 1 1 2147483653,
                              nGridCells := 1 * 1 * 2147483653 \<rparr>"

text \<open>
  The grids in which no axis has more than \<open>2 ^ 31\<close> cells: every coordinate of a cell
  is then a value of \<^verbatim>\<open>int\<close>.
\<close>

definition int_axes :: "GlobalData \<Rightarrow> bool" where
  "int_axes gd =
     (unat (ux (gridSize gd)) \<le> 2 ^ 31 \<and> unat (uy (gridSize gd)) \<le> 2 ^ 31 \<and>
      unat (uz (gridSize gd)) \<le> 2 ^ 31)"

text \<open>
  The components of an \<^verbatim>\<open>int3\<close> converted to \<^verbatim>\<open>uint\<close>, as a comparison of an
  \<^verbatim>\<open>int\<close> with a \<^verbatim>\<open>uint\<close> converts them.
\<close>

definition uint3_of_int3 :: "int3 \<Rightarrow> uint3" where
  "uint3_of_int3 c = make_uint3 (ix c) (iy c) (iz c)"

text \<open>
  The grid of the scenario of the specification, 4 by 4 by 4 cells of size 1 at the
  origin, run on two devices of one node: the lower half of the cells belongs to device 0,
  the upper half to device 1.
\<close>

definition scenario_grid :: GlobalData where
  "scenario_grid =
     (GlobalData_ctor zero_storage)
       \<lparr> devices := 2, mpi_nodes := 1,
         worldOrigin := make_float3 0 0 0, cellSize := make_float3 1 1 1,
         gridSize := make_uint3 4 4 4, nGridCells := 4 * 4 * 4,
         s_hDeviceMap := Some (replicate 32 0 @ replicate 32 1) \<rparr>"

section \<open>buffer.h\<close>

text \<open>
  A pointer to the storage of an array is an address or null (\<open>None\<close>). The buffers
  themselves are objects on the heap, and a \<^verbatim>\<open>BufferList\<close> holds pointers to them.
\<close>

type_synonym array_ptr = "nat option"
type_synonym buffer_ptr = "nat option"

text \<open>
  An object of class \<^verbatim>\<open>AbstractBuffer\<close> built by the default constructor has a null
  \<^verbatim>\<open>m_ptr\<close>. An object of a class \<^verbatim>\<open>GenericBuffer<T, N>\<close>, or of \<^verbatim>\<open>Buffer<Key>\<close>
  which adds no member, has the array \<^verbatim>\<open>m_bufs\<close> of \<open>N\<close> pointers, to which
  \<^verbatim>\<open>m_ptr\<close> is aliased, and the initialisation value.
\<close>

datatype buffer_object =
    AbstractBuffer
  | GenericBuffer (m_bufs: "array_ptr list") (m_init: int32)

text \<open>The constructor of \<^verbatim>\<open>GenericBuffer<T, N>\<close>: every pointer is null.\<close>

definition GenericBuffer_ctor :: "nat \<Rightarrow> int32 \<Rightarrow> buffer_object" where
  "GenericBuffer_ctor N init = GenericBuffer (replicate N None) init"

fun get_array_count :: "buffer_object \<Rightarrow> nat" where
  "get_array_count AbstractBuffer = 0"
| "get_array_count (GenericBuffer bufs init) = length bufs"

text \<open>
  \<^verbatim>\<open>get_buffer\<close>, a virtual function: the base class returns null when \<^verbatim>\<open>m_ptr\<close> is
  null, \<^verbatim>\<open>GenericBuffer\<close> checks the index against \<open>N\<close> first.
\<close>

fun get_buffer :: "buffer_object \<Rightarrow> uint \<Rightarrow> array_ptr" where
  "get_buffer AbstractBuffer idx = None"
| "get_buffer (GenericBuffer bufs init) idx =
     (if length bufs \<le> unat idx then None else bufs ! unat idx)"

text \<open>
  The heap of buffer objects, and \<^verbatim>\<open>BufferList\<close>: a \<^verbatim>\<open>std::map\<close> from keys to
  pointers, kept as the list of its entries in the order of the keys, which is the order
  its iterators follow. \<^verbatim>\<open>find\<close> is \<open>map_of\<close>.
\<close>

type_synonym heap = "nat \<Rightarrow> buffer_object option"
type_synonym 'k BufferList = "('k \<times> buffer_ptr) list"

datatype exception = runtime_error string

definition BufferList_ctor :: "'k BufferList" where
  "BufferList_ctor = []"

text \<open>
  The loop of \<^verbatim>\<open>clear\<close>: \<^verbatim>\<open>delete buf->second\<close> for every entry. Deleting a null
  pointer does nothing; deleting a pointer to no living object is a fault.
\<close>

fun delete_buffers :: "heap \<Rightarrow> 'k BufferList \<Rightarrow> fault + heap" where
  "delete_buffers h [] = Inr h"
| "delete_buffers h ((k, None) # bl) = delete_buffers h bl"
| "delete_buffers h ((k, Some a) # bl) =
     (case h a of
        None \<Rightarrow> Inl InvalidDelete
      | Some b \<Rightarrow> delete_buffers (h(a := None)) bl)"

text \<open>\<^verbatim>\<open>BufferList::clear\<close>: the loop, then \<^verbatim>\<open>baseclass::clear()\<close>.\<close>

definition clear :: "heap \<Rightarrow> 'k BufferList \<Rightarrow> fault + heap \<times> 'k BufferList" where
  "clear h bl =
     (case delete_buffers h bl of
        Inl f \<Rightarrow> Inl f
      | Inr h' \<Rightarrow> Inr (h', []))"

text \<open>\<^verbatim>\<open>BufferList::getBuffer<Key>\<close> and \<^verbatim>\<open>BufferList::operator[]\<close>\<close>

definition getBuffer :: "'k BufferList \<Rightarrow> 'k \<Rightarrow> buffer_ptr" where
  "getBuffer bl Key = (case map_of bl Key of Some p \<Rightarrow> p | None \<Rightarrow> None)"

definition subscript :: "'k BufferList \<Rightarrow> 'k \<Rightarrow> buffer_ptr" where
  "subscript bl Key = (case map_of bl Key of Some p \<Rightarrow> p | None \<Rightarrow> None)"

text \<open>
  \<^verbatim>\<open>BufferList::getBufferData<Key>\<close>: \<^verbatim>\<open>exists->second->get_buffer(num)\<close> when the key
  is found, null otherwise. The call goes through the stored pointer.
\<close>

definition getBufferData :: "heap \<Rightarrow> 'k BufferList \<Rightarrow> 'k \<Rightarrow> uint \<Rightarrow> fault + array_ptr" where
  "getBufferData h bl Key num =
     (case map_of bl Key of
        None \<Rightarrow> Inr None
      | Some None \<Rightarrow> Inl NullPointer
      | Some (Some a) \<Rightarrow>
          (case h a of
             None \<Rightarrow> Inl DanglingPointer
           | Some b \<Rightarrow> Inr (get_buffer b num)))"

text \<open>
  \<^verbatim>\<open>BufferList::operator<<\<close>. The result is the exception thrown, if any, and the list
  after the call. \<^verbatim>\<open>baseclass::operator[](Key) = buf\<close> adds the entry at its place in
  the order of the keys.
\<close>

definition operator_shift :: "('k::linorder) BufferList \<Rightarrow> 'k \<Rightarrow> buffer_ptr
    \<Rightarrow> exception option \<times> 'k BufferList" where
  "operator_shift bl Key buf =
     (case map_of bl Key of
        Some p \<Rightarrow> (Some (runtime_error ''trying to add a buffer for an already-available key!''), bl)
      | None \<Rightarrow> (None, insort_key fst (Key, buf) bl))"

text \<open>
  A list owns its buffers when the pointers that are not null are pairwise different and
  each points to a living object.
\<close>

definition owned :: "'k BufferList \<Rightarrow> nat list" where
  "owned bl = List.map_filter snd bl"

definition owns :: "heap \<Rightarrow> 'k BufferList \<Rightarrow> bool" where
  "owns h bl = (distinct (owned bl) \<and> list_all (\<lambda>a. h a \<noteq> None) (owned bl))"

text \<open>
  A heap with a position and a velocity buffer, both double-buffered and not allocated,
  and the list that holds them under the keys of \<^const>\<open>successive_keys\<close>.
\<close>

definition two_buffers :: heap where
  "two_buffers = (Map.empty(1 := Some (GenericBuffer_ctor 2 0)))(2 := Some (GenericBuffer_ctor 2 0))"

definition pos_vel_list :: "flag_t BufferList" where
  "pos_vel_list = [(BUFFER_POS successive_keys, Some 1), (BUFFER_VEL successive_keys, Some 2)]"

section \<open>Properties of the generation indices\<close>

lemma successive_keys_values:
  "BUFFER_POS successive_keys = 8"
  "BUFFER_VEL successive_keys = 16"
  "BUFFER_INFO successive_keys = 32"
  "BUFFER_PRESSURE successive_keys = 512"
  by (simp_all add: successive_keys_def FIRST_DEFINED_BUFFER_def LAST_DEFINED_STEP_def
      INTEGRATOR_STEP_2_def INTEGRATOR_STEP_1_def INITIALIZATION_STEP_def)

lemma generations_swapDeviceBuffers:
  "generations (swapDeviceBuffers K gd buffers) =
     [if buffers AND BUFFER_POS K \<noteq> 0 then (currentPosWrite gd, currentPosRead gd)
      else (currentPosRead gd, currentPosWrite gd),
      if buffers AND BUFFER_VEL K \<noteq> 0 then (currentVelWrite gd, currentVelRead gd)
      else (currentVelRead gd, currentVelWrite gd),
      if buffers AND BUFFER_INFO K \<noteq> 0 then (currentInfoWrite gd, currentInfoRead gd)
      else (currentInfoRead gd, currentInfoWrite gd),
      (currentBoundElementRead gd, currentBoundElementWrite gd),
      (currentGradGammaRead gd, currentGradGammaWrite gd),
      (currentVerticesRead gd, currentVerticesWrite gd),
      (currentPressureRead gd, currentPressureWrite gd),
      (currentTKERead gd, currentTKEWrite gd),
      (currentEpsRead gd, currentEpsWrite gd),
      (currentTurbViscRead gd, currentTurbViscWrite gd),
      (currentStrainRateRead gd, currentStrainRateWrite gd)]"
  by (simp add: swapDeviceBuffers_def generations_def Let_def)

lemma generation_ok_exchanged:
  "generation_ok (if c then (w, r) else (r, w)) = generation_ok (r, w)"
  by (auto simp: generation_ok_def)

lemma generations_ok_swapDeviceBuffers:
  "generations_ok gd \<Longrightarrow> generations_ok (swapDeviceBuffers K gd buffers)"
  unfolding generations_ok_def generations_swapDeviceBuffers
  by (simp add: generations_def generation_ok_exchanged)

lemma generations_indices_set:
  "generations indices_set =
     [(0, 1), (0, 1), (0, 1), (0, 1), (0, 1), (0, 1), (0, 1), (0, 1), (0, 1), (0, 1), (0, 1)]"
  by (simp add: indices_set_def GlobalData_ctor_def zero_storage_def generations_def)

lemma indices_set_pos_vel_info:
  "currentPosRead indices_set = 0" "currentPosWrite indices_set = 1"
  "currentVelRead indices_set = 0" "currentVelWrite indices_set = 1"
  "currentInfoRead indices_set = 0" "currentInfoWrite indices_set = 1"
  by (simp_all add: indices_set_def GlobalData_ctor_def zero_storage_def)

lemma generations_ok_indices_set: "generations_ok indices_set"
  by (simp add: indices_set_def GlobalData_ctor_def zero_storage_def generations_ok_def
      generations_def generation_ok_def)

text \<open>
  C1, as the code has it. For every set of flags, \<^const>\<open>swapDeviceBuffers\<close> exchanges the
  read and the write index of the positions, of the velocities and of the particle info,
  each exactly when its key is in the set, and it leaves the indices of the eight other
  double-buffered quantities (boundary elements, gradient of gamma, vertices, pressure,
  turbulent kinetic energy, epsilon, turbulent viscosity, strain rate) as they are, whether
  the set names them or not.
\<close>

theorem swapDeviceBuffers_pos_vel_info_only:
  "generations (swapDeviceBuffers K gd buffers) =
     [if buffers AND BUFFER_POS K \<noteq> 0 then (currentPosWrite gd, currentPosRead gd)
      else (currentPosRead gd, currentPosWrite gd),
      if buffers AND BUFFER_VEL K \<noteq> 0 then (currentVelWrite gd, currentVelRead gd)
      else (currentVelRead gd, currentVelWrite gd),
      if buffers AND BUFFER_INFO K \<noteq> 0 then (currentInfoWrite gd, currentInfoRead gd)
      else (currentInfoRead gd, currentInfoWrite gd)]
     @ drop 3 (generations gd)"
  by (simp add: generations_swapDeviceBuffers) (simp add: generations_def)

theorem swapDeviceBuffers_pos_vel_info_only_witness:
  "generations (swapDeviceBuffers successive_keys indices_set 48) =
     [(0, 1), (1, 0), (1, 0), (0, 1), (0, 1), (0, 1), (0, 1), (0, 1), (0, 1), (0, 1), (0, 1)]"
  using swapDeviceBuffers_pos_vel_info_only
      [where K = successive_keys and gd = indices_set and buffers = 48]
  by (simp add: successive_keys_values generations_indices_set indices_set_pos_vel_info)

text \<open>
  C1 as stated fails: with the pressure as the only quantity named, the read and the write
  index of the pressure are not exchanged.
\<close>

theorem swapDeviceBuffers_pressure_counterexample:
  "BUFFER_PRESSURE successive_keys \<noteq> 0 \<and>
   BUFFER_PRESSURE successive_keys AND BUFFERS_ALL_DBL successive_keys
     = BUFFER_PRESSURE successive_keys \<and>
   currentPressureRead indices_set = 0 \<and>
   currentPressureWrite indices_set = 1 \<and>
   currentPressureRead
     (swapDeviceBuffers successive_keys indices_set (BUFFER_PRESSURE successive_keys)) = 0 \<and>
   currentPressureWrite
     (swapDeviceBuffers successive_keys indices_set (BUFFER_PRESSURE successive_keys)) = 1"
  by (simp add: swapDeviceBuffers_def indices_set_def GlobalData_ctor_def zero_storage_def
      BUFFERS_ALL_DBL_def successive_keys_def FIRST_DEFINED_BUFFER_def LAST_DEFINED_STEP_def
      INTEGRATOR_STEP_2_def INTEGRATOR_STEP_1_def INITIALIZATION_STEP_def)

text \<open>
  C2, as the code has it. The constructor does not set the generation indices. Once every
  pair of indices is a pair of different values among 0 and 1, it stays so after every
  sequence of calls of \<^const>\<open>swapDeviceBuffers\<close>, whatever the flags.
\<close>

theorem generations_ok_swap_sequence:
  "generations_ok gd \<Longrightarrow> generations_ok (swap_sequence K gd flags)"
  unfolding swap_sequence_def
  by (induction flags arbitrary: gd) (simp_all add: generations_ok_swapDeviceBuffers)

theorem generations_ok_swap_sequence_witness:
  "generations_ok indices_set \<and>
   generations_ok (swap_sequence successive_keys indices_set [8, 24, 56, 512])"
  using generations_ok_swap_sequence
      [OF generations_ok_indices_set, where K = successive_keys and flags = "[8, 24, 56, 512]"]
  by (simp add: generations_ok_indices_set)

text \<open>
  C2 as stated fails right after the construction: built in storage filled with zeros,
  the object has the read and the write index of the positions both 0.
\<close>

theorem GlobalData_ctor_generations_counterexample:
  "currentPosRead (GlobalData_ctor zero_storage) = 0 \<and>
   currentPosWrite (GlobalData_ctor zero_storage) = 0 \<and>
   \<not> generations_ok (GlobalData_ctor zero_storage)"
  by (simp add: GlobalData_ctor_def zero_storage_def generations_ok_def generations_def
      generation_ok_def)

section \<open>Properties of the grid\<close>

subsection \<open>Signed and unsigned readings\<close>

lemma sint_eq_uint_nonneg:
  fixes w :: "32 word"
  assumes "0 \<le> sint w"
  shows "sint w = uint w"
proof -
  have "sint w < 2 ^ 31" using sint_lt [of w] by simp
  then have "sint w < 2 ^ 32" by simp
  then have "take_bit 32 (sint w) = sint w"
    using assms by (simp add: take_bit_int_eq_self)
  then show ?thesis using uint_sint [of w] by simp
qed

lemma sint_eq_uint_small:
  fixes w :: "32 word"
  assumes "uint w < 2 ^ 31"
  shows "sint w = uint w"
proof -
  have "- (2 ^ 31) \<le> (0 :: int)" by simp
  also have "0 \<le> uint w" by simp
  finally have "signed_take_bit 31 (uint w) = uint w"
    using assms by (intro signed_take_bit_int_eq_self)
  then show ?thesis by (simp add: sint_uint)
qed

lemma uint_less_of_unat:
  fixes v :: "32 word"
  assumes "unat v < 2 ^ 31"
  shows "uint v < 2 ^ 31"
proof -
  have "int (unat v) < int (2 ^ 31)" using assms by (simp only: of_nat_less_iff)
  then show ?thesis by (simp only: uint_nat) simp
qed

lemma nonneg_less_unat:
  fixes v s :: "32 word"
  assumes "0 \<le> sint v" "sint v < uint s"
  shows "unat v < unat s"
proof -
  have "uint v < uint s" using assms by (simp add: sint_eq_uint_nonneg)
  then show ?thesis by (simp only: uint_nat of_nat_less_iff)
qed

lemma small_in_axis:
  fixes v s :: "32 word"
  assumes "unat v < unat s" "unat v < 2 ^ 31"
  shows "0 \<le> sint v \<and> sint v < uint s"
proof -
  have "uint v < 2 ^ 31" using assms(2) by (rule uint_less_of_unat)
  then have "sint v = uint v" by (rule sint_eq_uint_small)
  moreover have "uint v < uint s" using assms(1) by (simp only: uint_nat of_nat_less_iff)
  ultimately show ?thesis by simp
qed

subsection \<open>Trimming one axis\<close>

lemma max_int_0:
  fixes v :: "32 word"
  shows "uint (max_int 0 v) = (if sint v < 0 then 0 else sint v)"
proof (cases "0 < sint v")
  case True
  then show ?thesis using sint_eq_uint_nonneg [of v] by (simp add: max_int_def)
next
  case False
  then show ?thesis
    by (cases "sint v = 0") (auto simp: max_int_def)
qed

lemma trim_axis:
  fixes v s :: "32 word"
  assumes "s \<noteq> 0"
  shows "uint (min_uint (max_int 0 v) (s - 1)) = clamp_axis (sint v) (uint s)"
proof -
  have "0 < unat s" using assms by (simp add: unat_gt_0)
  moreover have "unat (s - 1) = unat s - 1" using assms by (rule unat_minus_one)
  ultimately have "int (unat (s - 1)) = int (unat s) - 1" by simp
  then have s1: "uint (s - 1) = uint s - 1" by (simp only: uint_nat)
  have "1 \<le> int (unat s)" using \<open>0 < unat s\<close> by linarith
  then have s0: "1 \<le> uint s" by (simp only: uint_nat)
  have c: "unat (s - 1) < unat (max_int 0 v) \<longleftrightarrow> uint s - 1 < uint (max_int 0 v)"
    unfolding s1 [symmetric] by (simp only: uint_nat of_nat_less_iff)
  have "uint (min_uint (max_int 0 v) (s - 1)) =
          (if uint s - 1 < uint (max_int 0 v) then uint s - 1 else uint (max_int 0 v))"
    by (simp add: min_uint_def c s1)
  also have "\<dots> = clamp_axis (sint v) (uint s)"
    using s0 by (simp add: max_int_0 clamp_axis_def)
  finally show ?thesis .
qed

lemma trim_axis_less:
  fixes v s :: "32 word"
  assumes "s \<noteq> 0"
  shows "unat (min_uint (max_int 0 v) (s - 1)) < unat s"
proof -
  have "unat (min_uint (max_int 0 v) (s - 1)) \<le> unat (s - 1)"
    by (simp add: min_uint_def)
  also have "\<dots> < unat s" using assms by (rule measure_unat)
  finally show ?thesis .
qed

lemma trim_axis_id:
  fixes v s :: "32 word"
  assumes "0 \<le> sint v" "sint v < uint s"
  shows "min_uint (max_int 0 v) (s - 1) = v"
proof -
  have "s \<noteq> 0" using assms by auto
  then have "uint (min_uint (max_int 0 v) (s - 1)) = clamp_axis (sint v) (uint s)"
    by (rule trim_axis)
  also have "\<dots> = sint v" using assms by (simp add: clamp_axis_def)
  also have "\<dots> = uint v" using assms(1) by (rule sint_eq_uint_nonneg)
  finally show ?thesis by (simp only: word_uint_eq_iff)
qed

lemma clamp_axis_range: "1 \<le> n \<Longrightarrow> 0 \<le> clamp_axis v n \<and> clamp_axis v n \<le> n - 1"
  by (simp add: clamp_axis_def)

lemma calcGridHashHost_xyz_eq:
  "calcGridHashHost_xyz gd x y z = calcGridHashHost gd (make_int3 x y z)"
  by (simp add: calcGridHashHost_xyz_def calcGridHashHost_def)

lemma calcGridPosHost_xyz_eq:
  "calcGridPosHost_xyz gd x y z = calcGridPosHost gd (make_float3 x y z)"
  by (simp add: calcGridPosHost_xyz_def calcGridPosHost_def)

subsection \<open>The linear index without wrap-around\<close>

lemma nat_row_bound:
  fixes b c X Y :: nat
  assumes "b < Y" "c < X"
  shows "b * X + c < Y * X"
proof -
  have "b * X + c < Suc b * X" using assms(2) by simp
  also have "\<dots> \<le> Y * X" using assms(1) by (intro mult_le_mono1) simp
  finally show ?thesis .
qed

lemma nat_linear_bound:
  fixes a b c X Y Z :: nat
  assumes "a < Z" "b < Y" "c < X"
  shows "a * Y * X + b * X + c < X * Y * Z"
proof -
  have "b * X + c < Y * X" using assms(2,3) by (rule nat_row_bound)
  then have "a * (Y * X) + (b * X + c) < Suc a * (Y * X)" by simp
  also have "\<dots> \<le> Z * (Y * X)" using assms(1) by (intro mult_le_mono1) simp
  finally show ?thesis by (simp add: mult_ac)
qed

lemma unat_mult_mod:
  fixes a b :: "32 word"
  shows "unat (a * b) = (unat a * unat b) mod 2 ^ 32"
  by (simp add: unat_word_ariths)

lemma unat_row_mod:
  fixes b c sx :: "32 word"
  shows "unat (b * sx + c) = (unat b * unat sx + unat c) mod 2 ^ 32"
  by (simp add: unat_word_ariths mod_simps)

lemma unat_linear_mod:
  fixes a b c sx sy :: "32 word"
  shows "unat ((a * sy) * sx + b * sx + c)
           = (unat a * unat sy * unat sx + unat b * unat sx + unat c) mod 2 ^ 32"
  by (simp add: unat_word_ariths mod_simps)

lemma unat_linear:
  fixes a b c sx sy :: "32 word"
  assumes "unat a * unat sy * unat sx + unat b * unat sx + unat c < 2 ^ 32"
  shows "unat ((a * sy) * sx + b * sx + c)
           = unat a * unat sy * unat sx + unat b * unat sx + unat c"
  using assms by (simp only: unat_linear_mod mod_less)

lemma cell_count_bound: "grid_fits gd \<Longrightarrow> cell_count gd < 2 ^ 32"
proof -
  assume "grid_fits gd"
  then have "cell_count gd = unat (nGridCells gd)" by (simp add: grid_fits_def)
  also have "\<dots> < 2 ^ 32" using unsigned_less [of "nGridCells gd", where 'a = nat] by simp
  finally show ?thesis .
qed

lemma row_le_cell_count:
  assumes "0 < unat (uz (gridSize gd))"
  shows "unat (uy (gridSize gd)) * unat (ux (gridSize gd)) \<le> cell_count gd"
proof -
  have "unat (uy (gridSize gd)) * unat (ux (gridSize gd)) * 1
          \<le> unat (uy (gridSize gd)) * unat (ux (gridSize gd)) * unat (uz (gridSize gd))"
    using assms by (intro mult_le_mono2) simp
  then show ?thesis by (simp add: cell_count_def mult_ac)
qed

lemma calcGridHashHost_unat:
  assumes fits: "grid_fits gd"
    and nz: "ux (gridSize gd) \<noteq> 0" "uy (gridSize gd) \<noteq> 0" "uz (gridSize gd) \<noteq> 0"
  shows "unat (calcGridHashHost gd c)
           = unat (min_uint (max_int 0 (iz c)) (uz (gridSize gd) - 1)) * unat (uy (gridSize gd))
               * unat (ux (gridSize gd))
             + unat (min_uint (max_int 0 (iy c)) (uy (gridSize gd) - 1)) * unat (ux (gridSize gd))
             + unat (min_uint (max_int 0 (ix c)) (ux (gridSize gd) - 1))"
    and "unat (calcGridHashHost gd c) < unat (nGridCells gd)"
proof -
  let ?x = "min_uint (max_int 0 (ix c)) (ux (gridSize gd) - 1)"
  let ?y = "min_uint (max_int 0 (iy c)) (uy (gridSize gd) - 1)"
  let ?z = "min_uint (max_int 0 (iz c)) (uz (gridSize gd) - 1)"
  have "unat ?z * unat (uy (gridSize gd)) * unat (ux (gridSize gd))
          + unat ?y * unat (ux (gridSize gd)) + unat ?x < cell_count gd"
    unfolding cell_count_def using nz by (intro nat_linear_bound trim_axis_less)
  then have lt: "unat ?z * unat (uy (gridSize gd)) * unat (ux (gridSize gd))
          + unat ?y * unat (ux (gridSize gd)) + unat ?x < unat (nGridCells gd)"
    using fits by (simp add: grid_fits_def)
  also have "\<dots> < 2 ^ 32" using cell_count_bound [OF fits] fits by (simp add: grid_fits_def)
  finally have "unat ((?z * uy (gridSize gd)) * ux (gridSize gd) + ?y * ux (gridSize gd) + ?x)
      = unat ?z * unat (uy (gridSize gd)) * unat (ux (gridSize gd))
          + unat ?y * unat (ux (gridSize gd)) + unat ?x"
    by (rule unat_linear)
  then show u: "unat (calcGridHashHost gd c)
           = unat ?z * unat (uy (gridSize gd)) * unat (ux (gridSize gd))
             + unat ?y * unat (ux (gridSize gd)) + unat ?x"
    by (simp add: calcGridHashHost_def Let_def)
  show "unat (calcGridHashHost gd c) < unat (nGridCells gd)"
    using lt by (simp only: u)
qed

lemma calcGridHashHost_uint:
  assumes fits: "grid_fits gd"
    and nz: "ux (gridSize gd) \<noteq> 0" "uy (gridSize gd) \<noteq> 0" "uz (gridSize gd) \<noteq> 0"
  shows "uint (calcGridHashHost gd c)
           = (clamp_axis (sint (iz c)) (uint (uz (gridSize gd))) * uint (uy (gridSize gd))
               + clamp_axis (sint (iy c)) (uint (uy (gridSize gd)))) * uint (ux (gridSize gd))
             + clamp_axis (sint (ix c)) (uint (ux (gridSize gd)))"
proof -
  have "uint (calcGridHashHost gd c) = int (unat (calcGridHashHost gd c))"
    by (rule uint_nat)
  also have "\<dots> =
      (uint (min_uint (max_int 0 (iz c)) (uz (gridSize gd) - 1)) * uint (uy (gridSize gd))
        + uint (min_uint (max_int 0 (iy c)) (uy (gridSize gd) - 1))) * uint (ux (gridSize gd))
      + uint (min_uint (max_int 0 (ix c)) (ux (gridSize gd) - 1))"
    unfolding calcGridHashHost_unat(1) [OF fits nz] uint_nat
    by (simp add: algebra_simps)
  finally show ?thesis
    by (simp only: trim_axis [OF nz(1)] trim_axis [OF nz(2)] trim_axis [OF nz(3)])
qed

lemma calcGridHashHost_unat_mod:
  "unat (calcGridHashHost gd c)
     = (unat (min_uint (max_int 0 (iz c)) (uz (gridSize gd) - 1)) * unat (uy (gridSize gd))
               * unat (ux (gridSize gd))
          + unat (min_uint (max_int 0 (iy c)) (uy (gridSize gd) - 1)) * unat (ux (gridSize gd))
          + unat (min_uint (max_int 0 (ix c)) (ux (gridSize gd) - 1))) mod 2 ^ 32"
  by (simp only: calcGridHashHost_def Let_def unat_linear_mod)

lemma calcGridHashHost_less_cell_count:
  assumes nz: "ux (gridSize gd) \<noteq> 0" "uy (gridSize gd) \<noteq> 0" "uz (gridSize gd) \<noteq> 0"
  shows "unat (calcGridHashHost gd c) < cell_count gd"
proof -
  let ?x = "min_uint (max_int 0 (ix c)) (ux (gridSize gd) - 1)"
  let ?y = "min_uint (max_int 0 (iy c)) (uy (gridSize gd) - 1)"
  let ?z = "min_uint (max_int 0 (iz c)) (uz (gridSize gd) - 1)"
  let ?L = "unat ?z * unat (uy (gridSize gd)) * unat (ux (gridSize gd))
          + unat ?y * unat (ux (gridSize gd)) + unat ?x"
  have "unat (calcGridHashHost gd c) = ?L mod 2 ^ 32" by (rule calcGridHashHost_unat_mod)
  also have "\<dots> \<le> ?L" by (rule mod_less_eq_dividend)
  also have "?L < cell_count gd"
    unfolding cell_count_def using nz by (intro nat_linear_bound trim_axis_less)
  finally show ?thesis .
qed

lemma calcGridHashHost_uint_mod:
  assumes nz: "ux (gridSize gd) \<noteq> 0" "uy (gridSize gd) \<noteq> 0" "uz (gridSize gd) \<noteq> 0"
  shows "uint (calcGridHashHost gd c)
           = ((clamp_axis (sint (iz c)) (uint (uz (gridSize gd))) * uint (uy (gridSize gd))
               + clamp_axis (sint (iy c)) (uint (uy (gridSize gd)))) * uint (ux (gridSize gd))
             + clamp_axis (sint (ix c)) (uint (ux (gridSize gd)))) mod 2 ^ 32"
proof -
  have "uint (calcGridHashHost gd c) = int (unat (calcGridHashHost gd c))"
    by (rule uint_nat)
  also have "\<dots> =
      ((uint (min_uint (max_int 0 (iz c)) (uz (gridSize gd) - 1)) * uint (uy (gridSize gd))
        + uint (min_uint (max_int 0 (iy c)) (uy (gridSize gd) - 1))) * uint (ux (gridSize gd))
      + uint (min_uint (max_int 0 (ix c)) (ux (gridSize gd) - 1))) mod 2 ^ 32"
    unfolding calcGridHashHost_unat_mod uint_nat
    by (simp add: algebra_simps zmod_int)
  finally show ?thesis
    by (simp only: trim_axis [OF nz(1)] trim_axis [OF nz(2)] trim_axis [OF nz(3)])
qed

lemma calcGridHashHost_in_grid:
  assumes "in_grid gd c"
  shows "calcGridHashHost gd c
           = (iz c * uy (gridSize gd)) * ux (gridSize gd) + iy c * ux (gridSize gd) + ix c"
  using assms by (simp add: calcGridHashHost_def in_grid_def trim_axis_id)

lemma in_grid_unat:
  assumes "in_grid gd c"
  shows "unat (ix c) < unat (ux (gridSize gd))"
    and "unat (iy c) < unat (uy (gridSize gd))"
    and "unat (iz c) < unat (uz (gridSize gd))"
  using assms by (simp_all add: in_grid_def nonneg_less_unat)

subsection \<open>Reversing the linear index\<close>

lemma reverse_linear:
  fixes a b c :: "32 word"
  assumes b: "unat b < unat (uy (gridSize gd))"
    and c: "unat c < unat (ux (gridSize gd))"
    and row: "unat (uy (gridSize gd)) * unat (ux (gridSize gd)) < 2 ^ 32"
    and all: "unat a * unat (uy (gridSize gd)) * unat (ux (gridSize gd))
                + unat b * unat (ux (gridSize gd)) + unat c < 2 ^ 32"
  shows "reverseGridHashHost gd
           ((a * uy (gridSize gd)) * ux (gridSize gd) + b * ux (gridSize gd) + c)
         = Inr (make_int3 c b a)"
proof -
  define sx sy where "sx = ux (gridSize gd)" and "sy = uy (gridSize gd)"
  define X Y where "X = unat sx" and "Y = unat sy"
  define h where "h = (a * sy) * sx + b * sx + c"
  have X0: "0 < X" and Y0: "0 < Y" using b c by (auto simp: X_def Y_def sx_def sy_def)
  have bc: "unat b * X + unat c < Y * X"
    using b c by (intro nat_row_bound) (simp_all add: X_def Y_def sx_def sy_def)
  have H: "unat h = unat a * Y * X + unat b * X + unat c"
    unfolding h_def X_def Y_def using all
    by (intro unat_linear) (simp add: sx_def sy_def)
  have YX: "unat (sy * sx) = Y * X"
    using row by (simp add: unat_mult_mod X_def Y_def sx_def sy_def)
  then have nz: "sy * sx \<noteq> 0"
    using X0 Y0 by (auto simp: unat_eq_zero [symmetric] simp del: unat_eq_zero)
  have sxnz: "sx \<noteq> 0" using X0 by (auto simp: X_def)
  have "unat (h div (sy * sx)) = (unat a * (Y * X) + (unat b * X + unat c)) div (Y * X)"
    by (simp add: unat_div YX H mult.assoc add.assoc)
  also have "\<dots> = unat a" using bc X0 Y0 by simp
  finally have cz: "h div (sy * sx) = a" by (simp only: word_unat_eq_iff)
  have rest: "h - a * sy * sx = b * sx + c" by (simp add: h_def)
  have "unat (b * sx + c) = unat b * X + unat c"
    using bc row by (simp add: unat_row_mod X_def Y_def sx_def sy_def)
  then have "unat ((b * sx + c) div sx) = (unat b * X + unat c) div X"
    by (simp add: unat_div X_def)
  also have "\<dots> = unat b" using c X0 by (simp add: X_def sx_def)
  finally have cy: "(b * sx + c) div sx = b" by (simp only: word_unat_eq_iff)
  have "reverseGridHashHost gd h = Inr (make_int3 c b a)"
    using nz sxnz
    by (simp add: reverseGridHashHost_def sx_def [symmetric] sy_def [symmetric] cz rest cy)
  then show ?thesis by (simp add: h_def sx_def sy_def)
qed

lemma reverse_calc_in_grid:
  assumes count: "cell_count gd < 2 ^ 32" and c: "in_grid gd c"
  shows "reverseGridHashHost gd (calcGridHashHost gd c) = Inr c"
proof -
  note u = in_grid_unat [OF c]
  have lin: "unat (iz c) * unat (uy (gridSize gd)) * unat (ux (gridSize gd))
          + unat (iy c) * unat (ux (gridSize gd)) + unat (ix c) < cell_count gd"
    unfolding cell_count_def using u by (intro nat_linear_bound)
  have "0 < unat (uz (gridSize gd))" using u(3) by simp
  then have row: "unat (uy (gridSize gd)) * unat (ux (gridSize gd)) < 2 ^ 32"
    using row_le_cell_count [of gd] count by simp
  have "reverseGridHashHost gd
          ((iz c * uy (gridSize gd)) * ux (gridSize gd) + iy c * ux (gridSize gd) + ix c)
        = Inr (make_int3 (ix c) (iy c) (iz c))"
    using u(2) u(1) row lin count
    by (intro reverse_linear) simp_all
  then show ?thesis by (simp add: calcGridHashHost_in_grid [OF c])
qed

lemma calc_reverse_in_range:
  assumes fits: "grid_fits gd"
    and axes: "int_axes gd"
    and h: "unat h < unat (nGridCells gd)"
  shows "\<exists>c. reverseGridHashHost gd h = Inr c \<and> in_grid gd c \<and> calcGridHashHost gd c = h"
proof -
  define sx sy sz where "sx = ux (gridSize gd)" and "sy = uy (gridSize gd)"
    and "sz = uz (gridSize gd)"
  define X Y Z where "X = unat sx" and "Y = unat sy" and "Z = unat sz"
  define H where "H = unat h"
  have count: "cell_count gd = X * Y * Z"
    by (simp add: cell_count_def X_def Y_def Z_def sx_def sy_def sz_def)
  have HZ: "H < Z * (Y * X)"
    using h fits by (simp add: grid_fits_def count H_def mult_ac)
  then have pos: "0 < X" "0 < Y" "0 < Z" by (auto intro: Nat.gr0I)
  define an bn cn where "an = H div (Y * X)" and "bn = (H mod (Y * X)) div X"
    and "cn = (H mod (Y * X)) mod X"
  have an: "an < Z" unfolding an_def using HZ by (rule less_mult_imp_div_less)
  have "H mod (Y * X) < Y * X" using pos by simp
  then have bn: "bn < Y" unfolding bn_def by (rule less_mult_imp_div_less)
  have cn: "cn < X" unfolding cn_def using pos by simp
  have "H = an * (Y * X) + H mod (Y * X)"
    unfolding an_def by (rule div_mult_mod_eq [symmetric])
  also have "H mod (Y * X) = bn * X + cn"
    unfolding bn_def cn_def by (rule div_mult_mod_eq [symmetric])
  finally have Hsum: "H = an * Y * X + bn * X + cn" by (simp add: mult.assoc)
  have le: "an \<le> H" "bn \<le> H" "cn \<le> H"
    using Hsum pos by (simp_all add: an_def bn_def cn_def div_le_dividend
        order_trans [OF div_le_dividend mod_less_eq_dividend]
        order_trans [OF mod_less_eq_dividend mod_less_eq_dividend])
  define a b c :: "32 word" where "a = of_nat an" and "b = of_nat bn" and "c = of_nat cn"
  have ua: "unat a = an" and ub: "unat b = bn" and uc: "unat c = cn"
    using le by (simp_all add: a_def b_def c_def H_def le_unat_uoi)
  have H32: "H < 2 ^ 32"
    unfolding H_def using unsigned_less [of h, where 'a = nat] by simp
  have lin: "unat a * Y * X + unat b * X + unat c < 2 ^ 32"
    using H32 Hsum by (simp add: ua ub uc)
  have "unat ((a * sy) * sx + b * sx + c) = unat a * Y * X + unat b * X + unat c"
    unfolding X_def Y_def using lin by (intro unat_linear) (simp add: X_def Y_def)
  then have "unat ((a * sy) * sx + b * sx + c) = unat h"
    using Hsum by (simp add: ua ub uc H_def)
  then have heq: "(a * sy) * sx + b * sx + c = h" by (simp only: word_unat_eq_iff)
  have row: "Y * X < 2 ^ 32"
    using row_le_cell_count [of gd] cell_count_bound [OF fits] pos
    by (simp add: X_def Y_def Z_def sx_def sy_def sz_def)
  have "reverseGridHashHost gd
          ((a * uy (gridSize gd)) * ux (gridSize gd) + b * ux (gridSize gd) + c)
          = Inr (make_int3 c b a)"
    using bn cn row lin
    by (intro reverse_linear) (simp_all add: ua ub uc X_def Y_def sx_def sy_def)
  then have rev: "reverseGridHashHost gd h = Inr (make_int3 c b a)"
    using heq by (simp add: sx_def sy_def)
  have "X \<le> 2 ^ 31" "Y \<le> 2 ^ 31" "Z \<le> 2 ^ 31"
    using axes by (simp_all add: int_axes_def X_def Y_def Z_def sx_def sy_def sz_def)
  then have "unat a < 2 ^ 31" "unat b < 2 ^ 31" "unat c < 2 ^ 31"
    using an bn cn by (simp_all add: ua ub uc)
  then have grid: "in_grid gd (make_int3 c b a)"
    using an bn cn
    by (simp add: in_grid_def small_in_axis ua ub uc X_def Y_def Z_def sx_def sy_def sz_def)
  have "calcGridHashHost gd (make_int3 c b a) = h"
    using heq by (simp add: calcGridHashHost_in_grid [OF grid] sx_def sy_def)
  with rev grid show ?thesis by blast
qed

lemma reverse_returns:
  assumes fits: "grid_fits gd" and h: "unat h < unat (nGridCells gd)"
  shows "\<exists>c. reverseGridHashHost gd h = Inr c"
proof -
  have "0 < cell_count gd" using fits h by (simp add: grid_fits_def)
  then have pos: "0 < unat (ux (gridSize gd))" "0 < unat (uy (gridSize gd))"
    "0 < unat (uz (gridSize gd))"
    by (auto simp: cell_count_def intro: Nat.gr0I)
  have "unat (uy (gridSize gd)) * unat (ux (gridSize gd)) < 2 ^ 32"
    using row_le_cell_count [OF pos(3)] cell_count_bound [OF fits] by simp
  then have "unat (uy (gridSize gd) * ux (gridSize gd))
               = unat (uy (gridSize gd)) * unat (ux (gridSize gd))"
    by (simp add: unat_mult_mod)
  then have "uy (gridSize gd) * ux (gridSize gd) \<noteq> 0"
    using pos by (auto simp: unat_eq_zero [symmetric] simp del: unat_eq_zero)
  moreover have "ux (gridSize gd) \<noteq> 0" using pos(1) by auto
  ultimately show ?thesis by (simp add: reverseGridHashHost_def Let_def)
qed

lemma reverse_coords_le:
  assumes "reverseGridHashHost gd h = Inr c"
  shows "unat (iz c) \<le> unat h \<and> unat (iy c) \<le> unat h \<and> unat (ix c) \<le> unat h"
proof -
  define sx sy where "sx = ux (gridSize gd)" and "sy = uy (gridSize gd)"
  define d where "d = sy * sx"
  define cz where "cz = h div d"
  define r where "r = h - cz * d"
  define cy where "cy = r div sx"
  define cx where "cx = r - cy * sx"
  have nz: "d \<noteq> 0" "sx \<noteq> 0"
    using assms by (auto simp: reverseGridHashHost_def d_def sx_def sy_def split: if_splits)
  have c: "c = make_int3 cx cy cz"
    using assms nz
    by (simp add: reverseGridHashHost_def Let_def cx_def cy_def r_def cz_def d_def sx_def sy_def
        mult.assoc)
  have z: "unat cz \<le> unat h" by (simp add: cz_def unat_div div_le_dividend)
  have "cz * d \<le> h" unfolding cz_def by (rule word_div_mult_le)
  then have "unat r = unat h - unat (cz * d)" unfolding r_def by (rule unat_sub)
  then have r: "unat r \<le> unat h" by simp
  have y: "unat cy \<le> unat r" by (simp add: cy_def unat_div div_le_dividend)
  have "cy * sx \<le> r" unfolding cy_def by (rule word_div_mult_le)
  then have "unat cx = unat r - unat (cy * sx)" unfolding cx_def by (rule unat_sub)
  then have x: "unat cx \<le> unat r" by simp
  show ?thesis using z y x r by (simp add: c)
qed

lemma sint_eq_uint_le:
  fixes v h :: "32 word"
  assumes "unat v \<le> unat h" "unat h < 2 ^ 31"
  shows "sint v = uint v"
proof -
  have "unat v < 2 ^ 31" using assms by simp
  then have "uint v < 2 ^ 31" by (rule uint_less_of_unat)
  then show ?thesis by (rule sint_eq_uint_small)
qed

lemma calcGridPosFromHash_reverse:
  "calcGridPosFromHash gd h = map_sum id uint3_of_int3 (reverseGridHashHost gd h)"
proof -
  define sx sy where "sx = ux (gridSize gd)" and "sy = uy (gridSize gd)"
  have c: "sx * sy = sy * sx" by (rule mult.commute)
  have z: "\<And>z :: uint. z * sx * sy = z * sy * sx" by (simp only: mult.assoc c)
  have x: "\<And>a b c :: uint. a - b - c = a - c - b" by simp
  show ?thesis
    unfolding calcGridPosFromHash_def reverseGridHashHost_def uint3_of_int3_def Let_def
      sx_def [symmetric] sy_def [symmetric] c z
    by (simp add: x)
qed

subsection \<open>The grid of the scenario\<close>

lemma scenario_grid_members:
  "gridSize scenario_grid = make_uint3 4 4 4"
  "nGridCells scenario_grid = 64"
  "devices scenario_grid = 2"
  "mpi_nodes scenario_grid = 1"
  "worldOrigin scenario_grid = make_float3 0 0 0"
  "cellSize scenario_grid = make_float3 1 1 1"
  "s_hDeviceMap scenario_grid = Some (replicate 32 0 @ replicate 32 1)"
  by (simp_all add: scenario_grid_def)

lemma scenario_grid_fits: "grid_fits scenario_grid"
  by (simp add: scenario_grid_members grid_fits_def cell_count_def)

lemma scenario_grid_int_axes: "int_axes scenario_grid"
  by (simp add: scenario_grid_members int_axes_def)

subsection \<open>The claims about the grid\<close>

text \<open>
  C3, as the code has it. In every grid of fewer than \<open>2 ^ 32\<close> cells, for every cell
  \<open>(x, y, z)\<close> with \<open>0 \<le> x < gridSize.x\<close>, \<open>0 \<le> y < gridSize.y\<close> and
  \<open>0 \<le> z < gridSize.z\<close>, \<^const>\<open>reverseGridHashHost\<close> applied to \<^const>\<open>calcGridHashHost\<close> of
  the cell returns the cell. In every grid whose number of cells is the value of
  \<^verbatim>\<open>nGridCells\<close> and in which no axis has more than \<open>2 ^ 31\<close> cells, for every \<open>h\<close>
  with \<open>0 \<le> h < nGridCells\<close>, \<^const>\<open>reverseGridHashHost\<close> returns a cell of the grid whose
  \<^const>\<open>calcGridHashHost\<close> is \<open>h\<close>.
\<close>

theorem grid_hash_round_trip:
  "(cell_count gd < 2 ^ 32 \<and> in_grid gd c \<longrightarrow>
      reverseGridHashHost gd (calcGridHashHost gd c) = Inr c) \<and>
   (grid_fits gd \<and> int_axes gd \<and> unat h < unat (nGridCells gd) \<longrightarrow>
      (\<exists>c'. reverseGridHashHost gd h = Inr c' \<and> in_grid gd c' \<and>
             calcGridHashHost gd c' = h))"
  using reverse_calc_in_grid [of gd c] calc_reverse_in_range [of gd h] by blast

theorem grid_hash_round_trip_witness:
  "cell_count scenario_grid < 2 ^ 32 \<and>
   in_grid scenario_grid (make_int3 1 2 3) \<and>
   reverseGridHashHost scenario_grid (calcGridHashHost scenario_grid (make_int3 1 2 3))
     = Inr (make_int3 1 2 3) \<and>
   grid_fits scenario_grid \<and>
   int_axes scenario_grid \<and>
   unat (57 :: uint) < unat (nGridCells scenario_grid) \<and>
   (\<exists>c'. reverseGridHashHost scenario_grid 57 = Inr c' \<and> in_grid scenario_grid c' \<and>
          calcGridHashHost scenario_grid c' = 57)"
  using grid_hash_round_trip [of scenario_grid "make_int3 1 2 3" 57]
  by (simp add: scenario_grid_fits scenario_grid_int_axes scenario_grid_members in_grid_def
      cell_count_def)

text \<open>
  C3 as stated fails on grids that the types admit. In the grid of 1 by 1 by 2147483653
  cells, whose number of cells is the value of \<^verbatim>\<open>nGridCells\<close>, the index 2147483649 is
  below \<^verbatim>\<open>nGridCells\<close>; its reverse has the negative \<^verbatim>\<open>int\<close> -2147483647 as third
  coordinate, which is trimmed to 0, and the index computed from it is 0. In the grid of
  65536 by 32768 by 3 cells the cell \<open>(0, 0, 2)\<close> lies in the grid, its linear index
  \<open>2 * 32768 * 65536\<close> wraps to 0 in \<^verbatim>\<open>uint\<close>, and the reverse of 0 is the cell
  \<open>(0, 0, 0)\<close>.
\<close>

theorem grid_hash_round_trip_counterexample:
  "grid_fits tall_grid \<and>
   unat (2147483649 :: uint) < unat (nGridCells tall_grid) \<and>
   reverseGridHashHost tall_grid 2147483649 = Inr (make_int3 0 0 2147483649) \<and>
   sint (2147483649 :: int32) = - 2147483647 \<and>
   calcGridHashHost tall_grid (make_int3 0 0 2147483649) = 0 \<and>
   in_grid wide_grid (make_int3 0 0 2) \<and>
   calcGridHashHost wide_grid (make_int3 0 0 2) = 0 \<and>
   reverseGridHashHost wide_grid (calcGridHashHost wide_grid (make_int3 0 0 2))
     = Inr (make_int3 0 0 0)"
  by (simp add: wide_grid_def tall_grid_def zero_storage_def in_grid_def calcGridHashHost_def
      reverseGridHashHost_def min_uint_def max_int_def grid_fits_def cell_count_def)

text \<open>
  C4, as the code has it. In every grid in which every axis has at least one cell and whose
  number of cells \<open>gridSize.x * gridSize.y * gridSize.z\<close> is the value of
  \<^verbatim>\<open>nGridCells\<close>, hence below \<open>2 ^ 32\<close>, and for every triple of \<^verbatim>\<open>int\<close>
  coordinates, negative or beyond the upper bound included, \<^const>\<open>calcGridHashHost\<close> trims
  each coordinate into \<open>[0, gridSize.axis - 1]\<close> and returns the linear index
  \<open>(z' * gridSize.y + y') * gridSize.x + x'\<close> of the trimmed coordinates, which is below
  \<^verbatim>\<open>nGridCells\<close>. The function has no operation that can fault: it is a value for
  every argument.
\<close>

theorem calcGridHashHost_clamps:
  assumes "1 \<le> unat (ux (gridSize gd))"
    and "1 \<le> unat (uy (gridSize gd))"
    and "1 \<le> unat (uz (gridSize gd))"
    and "grid_fits gd"
  shows "0 \<le> clamp_axis (sint (ix c)) (uint (ux (gridSize gd))) \<and>
         clamp_axis (sint (ix c)) (uint (ux (gridSize gd))) \<le> uint (ux (gridSize gd)) - 1 \<and>
         0 \<le> clamp_axis (sint (iy c)) (uint (uy (gridSize gd))) \<and>
         clamp_axis (sint (iy c)) (uint (uy (gridSize gd))) \<le> uint (uy (gridSize gd)) - 1 \<and>
         0 \<le> clamp_axis (sint (iz c)) (uint (uz (gridSize gd))) \<and>
         clamp_axis (sint (iz c)) (uint (uz (gridSize gd))) \<le> uint (uz (gridSize gd)) - 1 \<and>
         uint (calcGridHashHost gd c)
           = (clamp_axis (sint (iz c)) (uint (uz (gridSize gd))) * uint (uy (gridSize gd))
               + clamp_axis (sint (iy c)) (uint (uy (gridSize gd)))) * uint (ux (gridSize gd))
             + clamp_axis (sint (ix c)) (uint (ux (gridSize gd))) \<and>
         unat (calcGridHashHost gd c) < unat (nGridCells gd)"
proof -
  have nz: "ux (gridSize gd) \<noteq> 0" "uy (gridSize gd) \<noteq> 0" "uz (gridSize gd) \<noteq> 0"
    using assms(1-3) by auto
  have "1 \<le> int (unat (ux (gridSize gd)))" "1 \<le> int (unat (uy (gridSize gd)))"
    "1 \<le> int (unat (uz (gridSize gd)))"
    using assms(1-3) by linarith+
  then have one: "1 \<le> uint (ux (gridSize gd))" "1 \<le> uint (uy (gridSize gd))"
    "1 \<le> uint (uz (gridSize gd))"
    by (simp_all only: uint_nat)
  show ?thesis
    using calcGridHashHost_uint [OF assms(4) nz, of c]
      calcGridHashHost_unat(2) [OF assms(4) nz, of c]
      clamp_axis_range [OF one(1), of "sint (ix c)"]
      clamp_axis_range [OF one(2), of "sint (iy c)"]
      clamp_axis_range [OF one(3), of "sint (iz c)"]
    by blast
qed

theorem calcGridHashHost_clamps_witness:
  "1 \<le> unat (ux (gridSize scenario_grid)) \<and>
   1 \<le> unat (uy (gridSize scenario_grid)) \<and>
   1 \<le> unat (uz (gridSize scenario_grid)) \<and>
   grid_fits scenario_grid \<and>
   uint (calcGridHashHost scenario_grid (make_int3 (- 1) 2 7)) = (3 * 4 + 2) * 4 + 0 \<and>
   unat (calcGridHashHost scenario_grid (make_int3 (- 1) 2 7)) < unat (nGridCells scenario_grid)"
proof -
  have g: "1 \<le> unat (ux (gridSize scenario_grid))" "1 \<le> unat (uy (gridSize scenario_grid))"
    "1 \<le> unat (uz (gridSize scenario_grid))"
    by (simp_all add: scenario_grid_members)
  show ?thesis
    using calcGridHashHost_clamps [OF g scenario_grid_fits, of "make_int3 (- 1) 2 7"]
    by (simp add: scenario_grid_fits scenario_grid_members clamp_axis_def)
qed

text \<open>
  C4 as stated fails on grids that the types admit. In the grid of 65536 by 32768 by 3
  cells every axis has at least one cell and \<^verbatim>\<open>nGridCells\<close>, the product of the sizes
  in \<^verbatim>\<open>uint\<close>, is 2147483648. The index of the cell \<open>(0, 0, 1)\<close> is 2147483648, which is
  not below \<^verbatim>\<open>nGridCells\<close>. The cell \<open>(0, 0, 2)\<close> needs no trimming and its linear index
  is 4294967296, which wraps to 0 in \<^verbatim>\<open>uint\<close>.
\<close>

theorem calcGridHashHost_clamps_counterexample:
  "1 \<le> unat (ux (gridSize wide_grid)) \<and>
   1 \<le> unat (uy (gridSize wide_grid)) \<and>
   1 \<le> unat (uz (gridSize wide_grid)) \<and>
   nGridCells wide_grid
     = ux (gridSize wide_grid) * uy (gridSize wide_grid) * uz (gridSize wide_grid) \<and>
   unat (nGridCells wide_grid) = 2147483648 \<and>
   unat (calcGridHashHost wide_grid (make_int3 0 0 1)) = 2147483648 \<and>
   \<not> unat (calcGridHashHost wide_grid (make_int3 0 0 1)) < unat (nGridCells wide_grid) \<and>
   clamp_axis (sint (2 :: int32)) (uint (uz (gridSize wide_grid))) = 2 \<and>
   (2 * uint (uy (gridSize wide_grid)) + 0) * uint (ux (gridSize wide_grid)) + 0 = 4294967296 \<and>
   calcGridHashHost wide_grid (make_int3 0 0 2) = 0"
  by (simp add: wide_grid_def zero_storage_def calcGridHashHost_def min_uint_def max_int_def
      clamp_axis_def)

text \<open>
  C5. \<^const>\<open>calcGlobalDeviceIndex\<close> returns 0 when there is one device and one node,
  whatever the position and the device map. Otherwise it returns the element of the device
  map at the index \<^const>\<open>calcGridHashHost\<close> of the cell \<^const>\<open>calcGridPosHost\<close> of the
  position, faulting where the computation of the cell or the read of the map faults. In a
  grid whose number of cells is the value of \<^verbatim>\<open>nGridCells\<close>, with at least one cell on
  every axis and a device map of \<^verbatim>\<open>nGridCells\<close> elements, the read is within the map.
  The function is a value of the structure and the position alone: it changes no member,
  and nothing in it allocates or performs input or output.
\<close>

theorem calcGlobalDeviceIndex_device_map:
  "(devices gd = 1 \<and> mpi_nodes gd = 1 \<longrightarrow> calcGlobalDeviceIndex gd pos = Inr 0) \<and>
   (\<not> (devices gd = 1 \<and> mpi_nodes gd = 1) \<longrightarrow>
      calcGlobalDeviceIndex gd pos =
        (case calcGridPosHost gd (make_float3 (px pos) (py pos) (pz pos)) of
           Inl f \<Rightarrow> Inl f
         | Inr cell \<Rightarrow> read_array (s_hDeviceMap gd) (calcGridHashHost gd cell))) \<and>
   (\<not> (devices gd = 1 \<and> mpi_nodes gd = 1) \<and> grid_fits gd \<and>
    1 \<le> unat (ux (gridSize gd)) \<and> 1 \<le> unat (uy (gridSize gd)) \<and>
    1 \<le> unat (uz (gridSize gd)) \<and>
    s_hDeviceMap gd = Some m \<and> length m = unat (nGridCells gd) \<and>
    calcGridPosHost gd (make_float3 (px pos) (py pos) (pz pos)) = Inr cell \<longrightarrow>
      calcGlobalDeviceIndex gd pos = Inr (m ! unat (calcGridHashHost gd cell)))"
proof (intro conjI impI)
  assume "devices gd = 1 \<and> mpi_nodes gd = 1"
  then show "calcGlobalDeviceIndex gd pos = Inr 0"
    by (simp add: calcGlobalDeviceIndex_def)
next
  assume "\<not> (devices gd = 1 \<and> mpi_nodes gd = 1)"
  then show "calcGlobalDeviceIndex gd pos =
        (case calcGridPosHost gd (make_float3 (px pos) (py pos) (pz pos)) of
           Inl f \<Rightarrow> Inl f
         | Inr cell \<Rightarrow> read_array (s_hDeviceMap gd) (calcGridHashHost gd cell))"
    by (auto simp: calcGlobalDeviceIndex_def calcGridPosHost_xyz_eq Let_def split: sum.splits)
next
  assume a: "\<not> (devices gd = 1 \<and> mpi_nodes gd = 1) \<and> grid_fits gd \<and>
    1 \<le> unat (ux (gridSize gd)) \<and> 1 \<le> unat (uy (gridSize gd)) \<and>
    1 \<le> unat (uz (gridSize gd)) \<and>
    s_hDeviceMap gd = Some m \<and> length m = unat (nGridCells gd) \<and>
    calcGridPosHost gd (make_float3 (px pos) (py pos) (pz pos)) = Inr cell"
  then have nz: "ux (gridSize gd) \<noteq> 0" "uy (gridSize gd) \<noteq> 0" "uz (gridSize gd) \<noteq> 0"
    by auto
  from a have fits: "grid_fits gd" by simp
  show "calcGlobalDeviceIndex gd pos = Inr (m ! unat (calcGridHashHost gd cell))"
    using a calcGridHashHost_unat(2) [OF fits nz, of cell]
    by (auto simp: calcGlobalDeviceIndex_def calcGridPosHost_xyz_eq read_array_def)
qed

theorem calcGlobalDeviceIndex_device_map_witness:
  "calcGlobalDeviceIndex (scenario_grid \<lparr> devices := 1 \<rparr>) (make_float4 3.5 3.5 3.5 0) = Inr 0 \<and>
   \<not> (devices scenario_grid = 1 \<and> mpi_nodes scenario_grid = 1) \<and>
   grid_fits scenario_grid \<and>
   s_hDeviceMap scenario_grid = Some (replicate 32 0 @ replicate 32 1) \<and>
   length (replicate 32 (0 :: uchar) @ replicate 32 1) = unat (nGridCells scenario_grid) \<and>
   calcGridPosHost scenario_grid (make_float3 3.5 3.5 3.5) = Inr (make_int3 3 3 3) \<and>
   calcGlobalDeviceIndex scenario_grid (make_float4 3.5 3.5 3.5 0)
     = Inr ((replicate 32 0 @ replicate 32 1) ! 63)"
proof -
  have cell: "calcGridPosHost scenario_grid (make_float3 3.5 3.5 3.5) = Inr (make_int3 3 3 3)"
    by (simp add: calcGridPosHost_def cell_of_axes_def grid_axis_def float_to_int_def
        scenario_grid_members)
  have hash: "calcGridHashHost scenario_grid (make_int3 3 3 3) = 63"
    by (simp add: calcGridHashHost_def min_uint_def max_int_def scenario_grid_members)
  have single: "devices (scenario_grid \<lparr> devices := 1 \<rparr>) = 1 \<and>
      mpi_nodes (scenario_grid \<lparr> devices := 1 \<rparr>) = 1"
    by (simp add: scenario_grid_members)
  show ?thesis
    using calcGlobalDeviceIndex_device_map
        [where gd = "scenario_grid \<lparr> devices := 1 \<rparr>" and pos = "make_float4 3.5 3.5 3.5 0"]
      calcGlobalDeviceIndex_device_map
        [where gd = scenario_grid and pos = "make_float4 3.5 3.5 3.5 0"
           and m = "replicate 32 0 @ replicate 32 1" and cell = "make_int3 3 3 3"]
      single cell hash
    by (simp add: scenario_grid_fits scenario_grid_members read_array_def)
qed

text \<open>
  C9. In the grid of 4 by 4 by 4 cells of size 1 at the origin, \<^const>\<open>calcGridPosHost\<close> of
  the position \<open>(3.5, 3.5, 3.5)\<close> is the cell \<open>(3, 3, 3)\<close>, whose \<^const>\<open>calcGridHashHost\<close> is
  63; \<^const>\<open>calcGridPosHost\<close> of \<open>(10, 0, 0)\<close> is the cell \<open>(10, 0, 0)\<close>, and
  \<^const>\<open>calcGridHashHost\<close> trims its first coordinate to 3 and returns 3. The other
  members of the structure are arbitrary.
\<close>

theorem scenario_grid_positions:
  "calcGridPosHost
     (gd \<lparr> worldOrigin := make_float3 0 0 0, cellSize := make_float3 1 1 1,
           gridSize := make_uint3 4 4 4 \<rparr>) (make_float3 3.5 3.5 3.5)
     = Inr (make_int3 3 3 3) \<and>
   calcGridHashHost
     (gd \<lparr> worldOrigin := make_float3 0 0 0, cellSize := make_float3 1 1 1,
           gridSize := make_uint3 4 4 4 \<rparr>) (make_int3 3 3 3)
     = 63 \<and>
   calcGridPosHost
     (gd \<lparr> worldOrigin := make_float3 0 0 0, cellSize := make_float3 1 1 1,
           gridSize := make_uint3 4 4 4 \<rparr>) (make_float3 10 0 0)
     = Inr (make_int3 10 0 0) \<and>
   min_uint (max_int 0 10) (ux (make_uint3 4 4 4) - 1) = 3 \<and>
   calcGridHashHost
     (gd \<lparr> worldOrigin := make_float3 0 0 0, cellSize := make_float3 1 1 1,
           gridSize := make_uint3 4 4 4 \<rparr>) (make_int3 10 0 0)
     = 3"
  by (simp add: calcGridPosHost_def cell_of_axes_def grid_axis_def float_to_int_def
      calcGridHashHost_def min_uint_def max_int_def)

text \<open>
  C10, as the code has it. For every \<open>h\<close>, \<^const>\<open>calcGridPosFromHash\<close> and
  \<^const>\<open>reverseGridHashHost\<close> fault together or return coordinates that are the same 32
  bits, component by component: the \<^verbatim>\<open>uint3\<close> is the \<^verbatim>\<open>int3\<close> converted. In a grid
  whose number of cells is the value of \<^verbatim>\<open>nGridCells\<close>, both return for every \<open>h\<close>
  below \<^verbatim>\<open>nGridCells\<close>. The coordinates returned are the same numbers, none of the
  \<^verbatim>\<open>int\<close> being negative, for every \<open>h\<close> below \<^verbatim>\<open>nGridCells\<close> of such a grid in which
  no axis has more than \<open>2 ^ 31\<close> cells, and in every grid for every \<open>h\<close> below \<open>2 ^ 31\<close>.
\<close>

theorem calcGridPosFromHash_agrees:
  "calcGridPosFromHash gd h = map_sum id uint3_of_int3 (reverseGridHashHost gd h) \<and>
   (grid_fits gd \<and> unat h < unat (nGridCells gd) \<longrightarrow>
      (\<exists>c. reverseGridHashHost gd h = Inr c \<and>
           calcGridPosFromHash gd h = Inr (make_uint3 (ix c) (iy c) (iz c)))) \<and>
   (grid_fits gd \<and> int_axes gd \<and> unat h < unat (nGridCells gd) \<longrightarrow>
      (\<exists>c p. reverseGridHashHost gd h = Inr c \<and> calcGridPosFromHash gd h = Inr p \<and>
             sint (ix c) = uint (ux p) \<and> sint (iy c) = uint (uy p) \<and>
             sint (iz c) = uint (uz p))) \<and>
   (unat h < 2 ^ 31 \<and> reverseGridHashHost gd h = Inr c' \<longrightarrow>
      (\<exists>p. calcGridPosFromHash gd h = Inr p \<and>
           sint (ix c') = uint (ux p) \<and> sint (iy c') = uint (uy p) \<and>
           sint (iz c') = uint (uz p)))"
proof (intro conjI impI)
  show eq: "calcGridPosFromHash gd h = map_sum id uint3_of_int3 (reverseGridHashHost gd h)"
    by (rule calcGridPosFromHash_reverse)
  {
    assume "grid_fits gd \<and> unat h < unat (nGridCells gd)"
    then obtain c where "reverseGridHashHost gd h = Inr c"
      using reverse_returns [of gd h] by blast
    then show "\<exists>c. reverseGridHashHost gd h = Inr c \<and>
        calcGridPosFromHash gd h = Inr (make_uint3 (ix c) (iy c) (iz c))"
      by (simp add: eq uint3_of_int3_def)
  }
  {
    assume "grid_fits gd \<and> int_axes gd \<and> unat h < unat (nGridCells gd)"
    then obtain c where c: "reverseGridHashHost gd h = Inr c" "in_grid gd c"
      using calc_reverse_in_range [of gd h] by blast
    from c(2) have "sint (ix c) = uint (ix c)" "sint (iy c) = uint (iy c)"
      "sint (iz c) = uint (iz c)"
      by (simp_all add: in_grid_def sint_eq_uint_nonneg)
    with c(1) show "\<exists>c p. reverseGridHashHost gd h = Inr c \<and> calcGridPosFromHash gd h = Inr p \<and>
        sint (ix c) = uint (ux p) \<and> sint (iy c) = uint (uy p) \<and> sint (iz c) = uint (uz p)"
      by (simp add: eq uint3_of_int3_def)
  }
  {
    assume a: "unat h < 2 ^ 31 \<and> reverseGridHashHost gd h = Inr c'"
    then have le: "unat (iz c') \<le> unat h \<and> unat (iy c') \<le> unat h \<and> unat (ix c') \<le> unat h"
      using reverse_coords_le [of gd h c'] by simp
    from a have small: "unat h < 2 ^ 31" by simp
    have "sint (ix c') = uint (ix c')" "sint (iy c') = uint (iy c')"
      "sint (iz c') = uint (iz c')"
      using le small by (simp_all add: sint_eq_uint_le [where h = h])
    with a show "\<exists>p. calcGridPosFromHash gd h = Inr p \<and>
        sint (ix c') = uint (ux p) \<and> sint (iy c') = uint (uy p) \<and> sint (iz c') = uint (uz p)"
      by (simp add: eq uint3_of_int3_def)
  }
qed

theorem calcGridPosFromHash_agrees_witness:
  "grid_fits scenario_grid \<and> int_axes scenario_grid \<and>
   unat (57 :: uint) < unat (nGridCells scenario_grid) \<and>
   unat (57 :: uint) < 2 ^ 31 \<and>
   reverseGridHashHost scenario_grid 57 = Inr (make_int3 1 2 3) \<and>
   calcGridPosFromHash scenario_grid 57 = Inr (make_uint3 1 2 3) \<and>
   sint (ix (make_int3 1 2 3)) = uint (ux (make_uint3 1 2 3)) \<and>
   sint (iy (make_int3 1 2 3)) = uint (uy (make_uint3 1 2 3)) \<and>
   sint (iz (make_int3 1 2 3)) = uint (uz (make_uint3 1 2 3))"
  using calcGridPosFromHash_agrees
      [where gd = scenario_grid and h = 57 and c' = "make_int3 1 2 3"]
  by (simp add: scenario_grid_fits scenario_grid_int_axes scenario_grid_members
      reverseGridHashHost_def uint3_of_int3_def)

text \<open>
  C10 as stated fails on a grid that the types admit. In the grid of 1 by 1 by 2147483653
  cells, whose number of cells is the value of \<^verbatim>\<open>nGridCells\<close>, the index 2147483649 is
  below \<^verbatim>\<open>nGridCells\<close>; \<^const>\<open>calcGridPosFromHash\<close> returns the third coordinate
  2147483649 and \<^const>\<open>reverseGridHashHost\<close> returns the third coordinate -2147483647.
\<close>

theorem calcGridPosFromHash_agrees_counterexample:
  "grid_fits tall_grid \<and>
   unat (2147483649 :: uint) < unat (nGridCells tall_grid) \<and>
   calcGridPosFromHash tall_grid 2147483649 = Inr (make_uint3 0 0 2147483649) \<and>
   reverseGridHashHost tall_grid 2147483649 = Inr (make_int3 0 0 2147483649) \<and>
   uint (uz (make_uint3 0 0 2147483649)) = 2147483649 \<and>
   sint (iz (make_int3 0 0 2147483649)) = - 2147483647"
  by (simp add: tall_grid_def zero_storage_def calcGridPosFromHash_def
      reverseGridHashHost_def grid_fits_def cell_count_def)

section \<open>Properties of the buffer list\<close>

lemma owned_simps:
  "owned [] = []"
  "owned ((k, None) # bl) = owned bl"
  "owned ((k, Some a) # bl) = a # owned bl"
  by (simp_all add: owned_def List.map_filter_simps)

lemma delete_buffers_owns:
  "owns h bl \<Longrightarrow> \<exists>h'. delete_buffers h bl = Inr h'"
proof (induction h bl rule: delete_buffers.induct)
  case (1 h)
  then show ?case by simp
next
  case (2 h k bl)
  then show ?case by (simp add: owns_def owned_simps)
next
  case (3 h k a bl)
  from "3.prems" obtain b where b: "h a = Some b"
    by (auto simp: owns_def owned_simps)
  from "3.prems" have "owns (h(a := None)) bl"
    by (auto simp: owns_def owned_simps list_all_iff)
  with "3.IH" [OF b] b show ?case by (simp add: fun_upd_def)
qed

lemma map_of_insort_key:
  "map_of bl k = None \<Longrightarrow> map_of (insort_key fst (k, v) bl) = (map_of bl)(k \<mapsto> v)"
  by (induction bl) (auto simp: fun_upd_twist split: if_splits)

lemma sorted_insort_keys:
  "sorted (map fst bl) \<Longrightarrow> sorted (map fst (insort_key fst (k, v) bl))"
  using sorted_insort_key [of fst "(k, v)" bl] by simp

lemma pos_vel_list_entries: "pos_vel_list = [(8, Some 1), (16, Some 2)]"
  by (simp add: pos_vel_list_def successive_keys_values)

lemma GenericBuffer_ctor_2: "GenericBuffer_ctor 2 init = GenericBuffer [None, None] init"
  by (simp add: GenericBuffer_ctor_def numeral_2_eq_2)

lemma owns_two_buffers: "owns two_buffers pos_vel_list"
  by (simp add: owns_def owned_def two_buffers_def pos_vel_list_entries List.map_filter_simps)

text \<open>
  C6. If the key is present in the list, \<^verbatim>\<open>operator<<\<close> throws its \<^verbatim>\<open>runtime_error\<close>
  and the list after the call is the list before it, so the buffer under the key is still
  the old one. If the key is not present, nothing is thrown and the list after the call
  maps the key to the new buffer and every other key as before.
\<close>

theorem operator_shift_no_overwrite:
  "(map_of bl Key \<noteq> None \<longrightarrow>
      fst (operator_shift bl Key buf)
        = Some (runtime_error ''trying to add a buffer for an already-available key!'') \<and>
      snd (operator_shift bl Key buf) = bl) \<and>
   (map_of bl Key = None \<longrightarrow>
      fst (operator_shift bl Key buf) = None \<and>
      map_of (snd (operator_shift bl Key buf)) = (map_of bl)(Key \<mapsto> buf))"
  by (auto simp: operator_shift_def map_of_insort_key)

theorem operator_shift_no_overwrite_witness:
  "map_of pos_vel_list 8 \<noteq> None \<and>
   fst (operator_shift pos_vel_list 8 (Some 3))
     = Some (runtime_error ''trying to add a buffer for an already-available key!'') \<and>
   snd (operator_shift pos_vel_list 8 (Some 3)) = pos_vel_list \<and>
   map_of pos_vel_list 32 = None \<and>
   fst (operator_shift pos_vel_list 32 (Some 3)) = None \<and>
   map_of (snd (operator_shift pos_vel_list 32 (Some 3))) 32 = Some (Some 3) \<and>
   map_of (snd (operator_shift pos_vel_list 32 (Some 3))) 8 = Some (Some 1)"
  using operator_shift_no_overwrite [of pos_vel_list 8 "Some 3"]
    operator_shift_no_overwrite [of pos_vel_list 32 "Some 3"]
  by (simp add: pos_vel_list_entries)

text \<open>
  C7. \<^const>\<open>get_buffer\<close> of a \<^verbatim>\<open>GenericBuffer\<close> with \<open>N\<close> arrays returns null for every
  index that is at least \<open>N\<close>. \<^const>\<open>getBufferData\<close> returns null, without a fault, when
  the key is not in the list, and when the key is in the list with a buffer none of whose
  arrays is allocated, whatever the index.
\<close>

theorem getBufferData_absent:
  "(length bufs \<le> unat idx \<longrightarrow> get_buffer (GenericBuffer bufs init) idx = None) \<and>
   (map_of bl Key = None \<longrightarrow> getBufferData h bl Key num = Inr None) \<and>
   (map_of bl Key = Some (Some a) \<and> h a = Some (GenericBuffer bufs init) \<and>
      (\<forall>p \<in> set bufs. p = None) \<longrightarrow> getBufferData h bl Key num = Inr None)"
  by (auto simp: getBufferData_def)

theorem getBufferData_absent_witness:
  "length [None, None :: array_ptr] \<le> unat (2 :: uint) \<and>
   get_buffer (GenericBuffer [None, None] 0) 2 = None \<and>
   map_of pos_vel_list 32 = None \<and>
   getBufferData two_buffers pos_vel_list 32 0 = Inr None \<and>
   map_of pos_vel_list 16 = Some (Some 2) \<and>
   two_buffers 2 = Some (GenericBuffer [None, None] 0) \<and>
   getBufferData two_buffers pos_vel_list 16 1 = Inr None"
  using getBufferData_absent
      [where bufs = "[None, None]" and idx = 2 and init = 0 and bl = pos_vel_list
         and Key = 32 and h = two_buffers and num = 0]
    getBufferData_absent
      [where bufs = "[None, None]" and idx = 2 and init = 0 and bl = pos_vel_list
         and Key = 16 and h = two_buffers and num = 1 and a = 2]
  by (simp add: pos_vel_list_entries two_buffers_def GenericBuffer_ctor_2)

text \<open>
  C8. When \<^const>\<open>clear\<close> returns, the list is empty, and a second \<^const>\<open>clear\<close> on the
  result returns without a fault, with the same heap and the list empty again. The first
  \<^const>\<open>clear\<close> returns for every list that owns its buffers.
\<close>

theorem clear_idempotent:
  "(owns h bl \<longrightarrow> (\<exists>h'. clear h bl = Inr (h', []))) \<and>
   (clear h bl = Inr (h', bl') \<longrightarrow> bl' = [] \<and> clear h' bl' = Inr (h', []))"
  using delete_buffers_owns [of h bl]
  by (auto simp: clear_def split: sum.splits)

theorem clear_idempotent_witness:
  "owns two_buffers pos_vel_list \<and>
   clear two_buffers pos_vel_list = Inr (Map.empty, []) \<and>
   clear Map.empty ([] :: flag_t BufferList) = Inr (Map.empty, [])"
proof -
  have c: "clear two_buffers pos_vel_list = Inr (Map.empty, [])"
    by (auto simp: clear_def pos_vel_list_entries two_buffers_def fun_upd_def intro!: ext)
  show ?thesis
    using clear_idempotent [of two_buffers pos_vel_list Map.empty "[]"] c
    by (simp add: owns_two_buffers)
qed

end
